theory Spec2Isabelle
  imports Main
begin

section \<open>The auctioneer client (client.go)\<close>

text \<open>
  A shallow embedding of \<^verbatim>\<open>client.go\<close>: the two constructors, the two submit
  operations and \<^verbatim>\<open>doRequest\<close>. What the file imports from other packages
  (\<^verbatim>\<open>cfhttp\<close>, \<^verbatim>\<open>rata\<close>, \<^verbatim>\<open>net/http\<close>, \<^verbatim>\<open>middleware\<close>, the
  encoders of the start-request types and the route names) is collected in a record
  of collaborators, \<open>env\<close>, so that every theorem holds for all of their behaviours.
\<close>

subsection \<open>Values\<close>

text \<open>A Go \<^verbatim>\<open>error\<close> value, identified by its message.\<close>

datatype error = GoError string

text \<open>
  \<^verbatim>\<open>context.Context\<close>, reduced to what a call can observe of it when it starts.
\<close>

datatype context_Context = Live | Canceled | DeadlineExceeded

record url =
  Scheme :: string
  Host :: string
  Path :: string

text \<open>
  \<^verbatim>\<open>http.Header\<close> is a map from a key to a list of values; an association list
  with one entry per key stands for it.
\<close>

type_synonym header = "(string \<times> string list) list"

text \<open>
  \<^verbatim>\<open>*http.Request\<close>. Its body is a reader that can be read once: \<open>Body\<close> holds the
  bytes not yet read from it. \<^verbatim>\<open>client.go\<close> wraps the payload in a
  \<^verbatim>\<open>bytes.Buffer\<close> and never rewinds or replaces it.
\<close>

record request =
  Method :: string
  URL :: url
  Header :: header
  Body :: string
  Ctx :: context_Context

record response =
  StatusCode :: int

text \<open>
  A pointer to an \<^verbatim>\<open>http.Client\<close> is an index into the heap of allocated clients;
  a nil pointer is \<open>None\<close>.
\<close>

type_synonym handle = nat

datatype 'tls round_tripper = http_Transport "'tls option" | other_RoundTripper

record 'tls http_Client =
  Transport :: "'tls round_tripper"

text \<open>\<^verbatim>\<open>lager.Logger\<close>: the stack of session names.\<close>

type_synonym logger = "string list"

text \<open>
  What a call can change outside its own variables: the allocated
  \<^verbatim>\<open>http.Client\<close> objects, the HTTP round trips started so far (in order, each with
  the client it went through and the request as it was handed over) and the
  events written by \<^verbatim>\<open>logger.Error\<close>.
\<close>

record 'tls world =
  heap :: "'tls http_Client list"
  attempts :: "(handle \<times> request) list"
  logged :: "(logger \<times> string \<times> error) list"

text \<open>The struct \<^verbatim>\<open>auctioneerClient\<close>, field by field.\<close>

record auctioneerClient =
  httpClient :: handle
  insecureHTTPClient :: "handle option"
  url :: string
  requireTLS :: bool
  traceRequest :: "request \<Rightarrow> request"

subsection \<open>Collaborators\<close>

text \<open>
  Everything \<^verbatim>\<open>client.go\<close> calls but does not define. \<open>'l\<close> and \<open>'t\<close> are the types
  \<^verbatim>\<open>LRPStartRequest\<close> and \<^verbatim>\<open>TaskStartRequest\<close>, \<open>'tr\<close> is
  \<^verbatim>\<open>opentracing.Tracer\<close>, \<open>'tls\<close> is \<^verbatim>\<open>tls.Config\<close>.
  \<^item> \<open>cfhttp_Client\<close>: the object a call of \<^verbatim>\<open>cfhttp.NewClient()\<close> allocates;
  \<^item> \<open>cfhttp_NewTLSConfig certFile keyFile caFile\<close>;
  \<^item> \<open>middleware_ToHTTPRequest tracer\<close>: the request function of the tracer;
  \<^item> \<open>marshal_LRPStartRequest\<close>, \<open>marshal_TaskStartRequest\<close>: the JSON text
    \<^verbatim>\<open>encoding/json\<close> writes for one (non-nil) element, or its error;
  \<^item> \<open>rata_CreateRequest host name body\<close>: \<^verbatim>\<open>CreateRequest\<close> of the generator
    \<^verbatim>\<open>rata.NewRequestGenerator(host, Routes)\<close> with no parameters;
  \<^item> \<open>CreateLRPAuctionsRoute\<close>, \<open>CreateTaskAuctionsRoute\<close>: the route names;
  \<^item> \<open>http_Do w h req\<close>: what \<^verbatim>\<open>Do(req)\<close> of the client at \<open>h\<close> returns when
    it is called in world \<open>w\<close>: \<open>Inl err\<close> when Go's \<^verbatim>\<open>err\<close> is not nil (the
    callers then ignore the response), \<open>Inr resp\<close> otherwise;
  \<^item> \<open>http_Do_read w h req\<close>: how many bytes of the request's body that same call
    reads before it returns (a round trip may consume the body, and only the body);
  \<^item> \<open>http_StatusText\<close>: \<^verbatim>\<open>http.StatusText\<close>.
\<close>

record ('l, 't, 'tr, 'tls) env =
  cfhttp_Client :: "'tls http_Client"
  cfhttp_NewTLSConfig :: "string \<Rightarrow> string \<Rightarrow> string \<Rightarrow> error + 'tls"
  middleware_ToHTTPRequest :: "'tr \<Rightarrow> request \<Rightarrow> request"
  marshal_LRPStartRequest :: "'l \<Rightarrow> error + string"
  marshal_TaskStartRequest :: "'t \<Rightarrow> error + string"
  rata_CreateRequest :: "string \<Rightarrow> string \<Rightarrow> string \<Rightarrow> error + request"
  CreateLRPAuctionsRoute :: string
  CreateTaskAuctionsRoute :: string
  http_Do :: "'tls world \<Rightarrow> handle \<Rightarrow> request \<Rightarrow> error + response"
  http_Do_read :: "'tls world \<Rightarrow> handle \<Rightarrow> request \<Rightarrow> nat"
  http_StatusText :: "int \<Rightarrow> string"

subsection \<open>Library calls with a fixed meaning\<close>

text \<open>\<^verbatim>\<open>cfhttp.NewClient()\<close>: allocate a client, return the pointer to it.\<close>

definition cfhttp_NewClient ::
  "('l, 't, 'tr, 'tls) env \<Rightarrow> 'tls world \<Rightarrow> handle \<times> 'tls world" where
  "cfhttp_NewClient env w =
     (length (heap w), w\<lparr>heap := heap w @ [cfhttp_Client env]\<rparr>)"

text \<open>
  \<^verbatim>\<open>client.Do(req)\<close>: the round trip is recorded with the request as it is handed
  over, its result is the collaborator's, and the request it leaves behind has lost
  the bytes of the body that were read. The request is one object, so whoever uses
  it next sees what is left.
\<close>

definition http_Client_Do ::
  "('l, 't, 'tr, 'tls) env \<Rightarrow> handle \<Rightarrow> request \<Rightarrow> 'tls world
     \<Rightarrow> (error + response) \<times> request \<times> 'tls world" where
  "http_Client_Do env h req w =
     (http_Do env w h req,
      req\<lparr>Body := drop (http_Do_read env w h req) (Body req)\<rparr>,
      w\<lparr>attempts := attempts w @ [(h, req)]\<rparr>)"

definition logger_Session :: "logger \<Rightarrow> string \<Rightarrow> logger" where
  "logger_Session lg name = lg @ [name]"

definition logger_Error :: "logger \<Rightarrow> string \<Rightarrow> error \<Rightarrow> 'tls world \<Rightarrow> 'tls world" where
  "logger_Error lg action err w = w\<lparr>logged := logged w @ [(lg, action, err)]\<rparr>"

text \<open>\<^verbatim>\<open>Header.Set(key, value)\<close>: the key's values become the one value.\<close>

fun header_Set :: "string \<Rightarrow> string \<Rightarrow> header \<Rightarrow> header" where
  "header_Set k v [] = [(k, [v])]"
| "header_Set k v ((k', vs) # h) =
     (if k' = k then (k, [v]) # h else (k', vs) # header_Set k v h)"

text \<open>
  \<^verbatim>\<open>json.Marshal\<close> of a slice of pointers. A Go slice is nil (\<open>None\<close>) or a sequence
  of elements; a pointer is nil (\<open>None\<close>) or points to a value. The encoder writes
  \<^verbatim>\<open>null\<close> for a nil slice and for a nil pointer, a JSON array for any other slice,
  and stops at the first element that fails.
\<close>

type_synonym 'a slice = "'a option list option"

text \<open>\<^verbatim>\<open>len\<close> of a slice: the nil slice has length 0.\<close>

definition slice_len :: "'a slice \<Rightarrow> nat" where
  "slice_len s = (case s of None \<Rightarrow> 0 | Some ps \<Rightarrow> length ps)"

definition encode_ptr :: "('a \<Rightarrow> error + string) \<Rightarrow> 'a option \<Rightarrow> error + string" where
  "encode_ptr enc p = (case p of None \<Rightarrow> Inr ''null'' | Some x \<Rightarrow> enc x)"

fun encode_elems :: "('a \<Rightarrow> error + string) \<Rightarrow> 'a option list \<Rightarrow> error + string list" where
  "encode_elems enc [] = Inr []"
| "encode_elems enc (p # ps) =
     (case encode_ptr enc p of
        Inl err \<Rightarrow> Inl err
      | Inr j \<Rightarrow>
          (case encode_elems enc ps of
             Inl err \<Rightarrow> Inl err
           | Inr js \<Rightarrow> Inr (j # js)))"

fun join_comma :: "string list \<Rightarrow> string" where
  "join_comma [] = []"
| "join_comma [j] = j"
| "join_comma (j # js) = j @ '','' @ join_comma js"

definition json_array :: "string list \<Rightarrow> string" where
  "json_array js = ''['' @ join_comma js @ '']''"

definition json_Marshal :: "('a \<Rightarrow> error + string) \<Rightarrow> 'a slice \<Rightarrow> error + string" where
  "json_Marshal enc s =
     (case s of
        None \<Rightarrow> Inr ''null''
      | Some ps \<Rightarrow>
          (case encode_elems enc ps of
             Inl err \<Rightarrow> Inl err
           | Inr js \<Rightarrow> Inr (json_array js)))"

text \<open>The verb \<^verbatim>\<open>%d\<close> of \<^verbatim>\<open>fmt\<close> on an \<^verbatim>\<open>int\<close>.\<close>

fun dec :: "nat \<Rightarrow> string" where
  "dec n = (if n < 10 then [char_of (48 + n)] else dec (n div 10) @ [char_of (48 + n mod 10)])"

declare dec.simps [simp del]

definition fmt_d :: "int \<Rightarrow> string" where
  "fmt_d i = (if i < 0 then ''-'' @ dec (nat (- i)) else dec (nat i))"

text \<open>
  \<^verbatim>\<open>fmt.Errorf("http error: status code %d (%s)", resp.StatusCode,
  http.StatusText(resp.StatusCode))\<close>.
\<close>

definition http_error :: "('l, 't, 'tr, 'tls) env \<Rightarrow> int \<Rightarrow> error" where
  "http_error env code =
     GoError (''http error: status code '' @ fmt_d code @ '' ('' @ http_StatusText env code @ '')'')"

definition http_StatusAccepted :: int where
  "http_StatusAccepted = 202"

subsection \<open>The constructors\<close>

definition NewClient ::
  "('l, 't, 'tr, 'tls) env \<Rightarrow> string \<Rightarrow> 'tr \<Rightarrow> 'tls world \<Rightarrow> auctioneerClient \<times> 'tls world" where
  "NewClient env auctioneerURL tracer w =
     (let (h, w1) = cfhttp_NewClient env w
      in (\<lparr>httpClient = h,
           insecureHTTPClient = None,
           url = auctioneerURL,
           requireTLS = False,
           traceRequest = middleware_ToHTTPRequest env tracer\<rparr>, w1))"

definition NewSecureClient ::
  "('l, 't, 'tr, 'tls) env \<Rightarrow> string \<Rightarrow> string \<Rightarrow> string \<Rightarrow> string \<Rightarrow> bool \<Rightarrow> 'tr
     \<Rightarrow> 'tls world \<Rightarrow> (error + auctioneerClient) \<times> 'tls world" where
  "NewSecureClient env auctioneerURL caFile certFile keyFile reqTLS tracer w =
     (let (ih, w1) = cfhttp_NewClient env w;
          (h, w2) = cfhttp_NewClient env w1
      in case cfhttp_NewTLSConfig env certFile keyFile caFile of
           Inl err \<Rightarrow> (Inl err, w2)
         | Inr tlsConfig \<Rightarrow>
             (case Transport (heap w2 ! h) of
                http_Transport old \<Rightarrow>
                  (Inr \<lparr>httpClient = h,
                        insecureHTTPClient = Some ih,
                        url = auctioneerURL,
                        requireTLS = reqTLS,
                        traceRequest = middleware_ToHTTPRequest env tracer\<rparr>,
                   w2\<lparr>heap := (heap w2)[h := (heap w2 ! h)\<lparr>Transport := http_Transport (Some tlsConfig)\<rparr>]\<rparr>)
              | other_RoundTripper \<Rightarrow> (Inl (GoError ''Invalid transport''), w2)))"

subsection \<open>Dispatch\<close>

text \<open>
  A method of \<^verbatim>\<open>*auctioneerClient\<close> takes the receiver's fields together with the
  world and returns both, so that a write to a field would show. Go's pair
  \<^verbatim>\<open>(resp, err)\<close> is a sum: every caller tests \<^verbatim>\<open>err != nil\<close> first and then
  ignores \<^verbatim>\<open>resp\<close>. A submit call returns Go's \<^verbatim>\<open>error\<close>, nil being \<open>None\<close>. The
  deferred \<^verbatim>\<open>resp.Body.Close()\<close> has no effect on anything modelled here and is left
  out. The constructors only ever store a non-nil \<^verbatim>\<open>httpClient\<close>, so that field is
  a plain handle.
\<close>

definition doRequest ::
  "('l, 't, 'tr, 'tls) env \<Rightarrow> logger \<Rightarrow> request \<Rightarrow> auctioneerClient \<times> 'tls world
     \<Rightarrow> (error + response) \<times> (auctioneerClient \<times> 'tls world)" where
  "doRequest env lg req s =
     (let (c, w) = s;
          (r, req1, w1) = http_Client_Do env (httpClient c) req w
      in case r of
           Inl err \<Rightarrow>
             (if \<not> requireTLS c then
                (case insecureHTTPClient c of
                   Some ih \<Rightarrow>
                     (let w2 = logger_Error lg ''retrying-on-http'' err w1;
                          req2 = req1\<lparr>URL := (URL req1)\<lparr>Scheme := ''http''\<rparr>\<rparr>;
                          (r', req3, w3) = http_Client_Do env ih req2 w2
                      in (r', (c, w3)))
                 | None \<Rightarrow> (Inl err, (c, w1)))
              else (Inl err, (c, w1)))
         | Inr resp \<Rightarrow> (Inr resp, (c, w1)))"

definition RequestLRPAuctions ::
  "('l, 't, 'tr, 'tls) env \<Rightarrow> logger \<Rightarrow> context_Context \<Rightarrow> 'l slice \<Rightarrow> auctioneerClient \<times> 'tls world
     \<Rightarrow> error option \<times> (auctioneerClient \<times> 'tls world)" where
  "RequestLRPAuctions env logger ctx lrpStarts s =
     (let lg = logger_Session logger ''request-lrp-auctions''
      in case json_Marshal (marshal_LRPStartRequest env) lrpStarts of
           Inl err \<Rightarrow> (Some err, s)
         | Inr payload \<Rightarrow>
             (case rata_CreateRequest env (url (fst s)) (CreateLRPAuctionsRoute env) payload of
                Inl err \<Rightarrow> (Some err, s)
              | Inr req0 \<Rightarrow>
                  (let req1 = traceRequest (fst s) (req0\<lparr>Ctx := ctx\<rparr>);
                       req = req1\<lparr>Header := header_Set ''Content-Type'' ''application/json'' (Header req1)\<rparr>
                   in case doRequest env lg req s of
                        (Inl err, s') \<Rightarrow> (Some err, s')
                      | (Inr resp, s') \<Rightarrow>
                          (if StatusCode resp \<noteq> http_StatusAccepted
                           then (Some (http_error env (StatusCode resp)), s')
                           else (None, s')))))"

definition RequestTaskAuctions ::
  "('l, 't, 'tr, 'tls) env \<Rightarrow> logger \<Rightarrow> context_Context \<Rightarrow> 't slice \<Rightarrow> auctioneerClient \<times> 'tls world
     \<Rightarrow> error option \<times> (auctioneerClient \<times> 'tls world)" where
  "RequestTaskAuctions env logger ctx tasks s =
     (let lg = logger_Session logger ''request-task-auctions''
      in case json_Marshal (marshal_TaskStartRequest env) tasks of
           Inl err \<Rightarrow> (Some err, s)
         | Inr payload \<Rightarrow>
             (case rata_CreateRequest env (url (fst s)) (CreateTaskAuctionsRoute env) payload of
                Inl err \<Rightarrow> (Some err, s)
              | Inr req0 \<Rightarrow>
                  (let req1 = traceRequest (fst s) (req0\<lparr>Ctx := ctx\<rparr>);
                       req = req1\<lparr>Header := header_Set ''Content-Type'' ''application/json'' (Header req1)\<rparr>
                   in case doRequest env lg req s of
                        (Inl err, s') \<Rightarrow> (Some err, s')
                      | (Inr resp, s') \<Rightarrow>
                          (if StatusCode resp \<noteq> http_StatusAccepted
                           then (Some (http_error env (StatusCode resp)), s')
                           else (None, s')))))"

subsection \<open>Derived notions\<close>

text \<open>
  Names for the stages of a submit call, used to state the properties: the request a
  call hands to \<open>doRequest\<close> (or the error that ends the call before), and the last
  step that turns the outcome of \<open>doRequest\<close> into the call's result. The lemmas
  \<open>RequestLRPAuctions_eq\<close> and \<open>RequestTaskAuctions_eq\<close> tie them to the operations.
\<close>

definition finishRequest :: "auctioneerClient \<Rightarrow> context_Context \<Rightarrow> request \<Rightarrow> request" where
  "finishRequest c ctx req0 =
     (let req1 = traceRequest c (req0\<lparr>Ctx := ctx\<rparr>)
      in req1\<lparr>Header := header_Set ''Content-Type'' ''application/json'' (Header req1)\<rparr>)"

definition lrpRequest ::
  "('l, 't, 'tr, 'tls) env \<Rightarrow> auctioneerClient \<Rightarrow> context_Context \<Rightarrow> 'l slice \<Rightarrow> error + request" where
  "lrpRequest env c ctx lrpStarts =
     (case json_Marshal (marshal_LRPStartRequest env) lrpStarts of
        Inl err \<Rightarrow> Inl err
      | Inr payload \<Rightarrow>
          (case rata_CreateRequest env (url c) (CreateLRPAuctionsRoute env) payload of
             Inl err \<Rightarrow> Inl err
           | Inr req0 \<Rightarrow> Inr (finishRequest c ctx req0)))"

definition taskRequest ::
  "('l, 't, 'tr, 'tls) env \<Rightarrow> auctioneerClient \<Rightarrow> context_Context \<Rightarrow> 't slice \<Rightarrow> error + request" where
  "taskRequest env c ctx tasks =
     (case json_Marshal (marshal_TaskStartRequest env) tasks of
        Inl err \<Rightarrow> Inl err
      | Inr payload \<Rightarrow>
          (case rata_CreateRequest env (url c) (CreateTaskAuctionsRoute env) payload of
             Inl err \<Rightarrow> Inl err
           | Inr req0 \<Rightarrow> Inr (finishRequest c ctx req0)))"

definition classify ::
  "('l, 't, 'tr, 'tls) env \<Rightarrow> error + response \<Rightarrow> error option" where
  "classify env r =
     (case r of
        Inl err \<Rightarrow> Some err
      | Inr resp \<Rightarrow>
          if StatusCode resp \<noteq> http_StatusAccepted then Some (http_error env (StatusCode resp))
          else None)"

subsection \<open>Samples\<close>

text \<open>
  Concrete collaborators on which the theorems are instantiated. The start requests
  are given as their JSON text, the tracer adds nothing, the TLS loader fails on an
  empty certificate path, and the request generator knows the two routes and rejects
  a base address with an empty scheme. The \<open>net_\<close> functions are servers: one that
  answers plain HTTP only, one that is down, one that answers every request with a
  given status, and one that answers unless the request's context is done. In
  \<open>sample_env\<close> a round trip reads nothing of the body (it fails, or is answered,
  before the body is sent); \<open>net_reset\<close> with \<open>read_all_on_https\<close> is a server that
  accepts the TLS connection, takes the whole request and then drops the connection,
  while it answers plain HTTP.
\<close>

definition sample_CreateRequest :: "string \<Rightarrow> string \<Rightarrow> string \<Rightarrow> error + request" where
  "sample_CreateRequest host name body =
     (if name \<noteq> ''create-lrp-auctions'' \<and> name \<noteq> ''create-task-auctions''
      then Inl (GoError (''No route exists with the name '' @ name))
      else if takeWhile (\<lambda>ch. ch \<noteq> CHR '':'') host = []
      then Inl (GoError ''parse: missing protocol scheme'')
      else Inr \<lparr>Method = ''POST'',
                URL = \<lparr>Scheme = takeWhile (\<lambda>ch. ch \<noteq> CHR '':'') host,
                        Host = drop 3 (dropWhile (\<lambda>ch. ch \<noteq> CHR '':'') host),
                        Path = (if name = ''create-lrp-auctions'' then ''/v1/lrps'' else ''/v1/tasks'')\<rparr>,
                Header = [],
                Body = body,
                Ctx = Live\<rparr>)"

definition sample_env ::
  "(string world \<Rightarrow> handle \<Rightarrow> request \<Rightarrow> error + response) \<Rightarrow> (string, string, unit, string) env" where
  "sample_env net =
     \<lparr>cfhttp_Client = \<lparr>Transport = http_Transport None\<rparr>,
      cfhttp_NewTLSConfig =
        (\<lambda>certFile keyFile caFile.
           if certFile = [] then Inl (GoError ''open : no such file or directory'')
           else Inr (certFile @ '','' @ keyFile @ '','' @ caFile)),
      middleware_ToHTTPRequest = (\<lambda>tracer req. req),
      marshal_LRPStartRequest = (\<lambda>x. Inr x),
      marshal_TaskStartRequest = (\<lambda>x. Inr x),
      rata_CreateRequest = sample_CreateRequest,
      CreateLRPAuctionsRoute = ''create-lrp-auctions'',
      CreateTaskAuctionsRoute = ''create-task-auctions'',
      http_Do = net,
      http_Do_read = (\<lambda>w h req. 0),
      http_StatusText =
        (\<lambda>code. if code = 202 then ''Accepted''
                else if code = 500 then ''Internal Server Error'' else [])\<rparr>"

definition net_plain_only :: "string world \<Rightarrow> handle \<Rightarrow> request \<Rightarrow> error + response" where
  "net_plain_only w h req =
     (if Scheme (URL req) = ''http'' then Inr \<lparr>StatusCode = 202\<rparr>
      else Inl (GoError ''tls: first record does not look like a TLS handshake''))"

definition net_down :: "string world \<Rightarrow> handle \<Rightarrow> request \<Rightarrow> error + response" where
  "net_down w h req =
     (if Scheme (URL req) = ''http'' then Inl (GoError ''dial tcp: connection refused'')
      else Inl (GoError ''tls: handshake failure''))"

definition net_status :: "int \<Rightarrow> string world \<Rightarrow> handle \<Rightarrow> request \<Rightarrow> error + response" where
  "net_status code w h req = Inr \<lparr>StatusCode = code\<rparr>"

definition net_ctx :: "string world \<Rightarrow> handle \<Rightarrow> request \<Rightarrow> error + response" where
  "net_ctx w h req =
     (if Ctx req \<noteq> Live then Inl (GoError ''context canceled'') else Inr \<lparr>StatusCode = 202\<rparr>)"



definition world0 :: "string world" where
  "world0 = \<lparr>heap = [], attempts = [], logged = []\<rparr>"

definition sample_client :: "bool \<Rightarrow> auctioneerClient" where
  "sample_client reqTLS =
     \<lparr>httpClient = 1, insecureHTTPClient = Some 0, url = ''https://auctioneer:9016'',
      requireTLS = reqTLS, traceRequest = (\<lambda>req. req)\<rparr>"

definition sample_request :: "string \<Rightarrow> string \<Rightarrow> context_Context \<Rightarrow> request" where
  "sample_request path body ctx =
     \<lparr>Method = ''POST'',
      URL = \<lparr>Scheme = ''https'', Host = ''auctioneer:9016'', Path = path\<rparr>,
      Header = [(''Content-Type'', [''application/json''])],
      Body = body,
      Ctx = ctx\<rparr>"

section \<open>Properties\<close>

subsection \<open>The stages of a call\<close>

lemma RequestLRPAuctions_eq:
  "RequestLRPAuctions env lg ctx lrpStarts (c, w) =
     (case lrpRequest env c ctx lrpStarts of
        Inl err \<Rightarrow> (Some err, (c, w))
      | Inr req \<Rightarrow>
          (classify env (fst (doRequest env (logger_Session lg ''request-lrp-auctions'') req (c, w))),
           snd (doRequest env (logger_Session lg ''request-lrp-auctions'') req (c, w))))"
  by (simp add: RequestLRPAuctions_def lrpRequest_def finishRequest_def classify_def Let_def
      split: sum.splits prod.splits)

lemma RequestTaskAuctions_eq:
  "RequestTaskAuctions env lg ctx tasks (c, w) =
     (case taskRequest env c ctx tasks of
        Inl err \<Rightarrow> (Some err, (c, w))
      | Inr req \<Rightarrow>
          (classify env (fst (doRequest env (logger_Session lg ''request-task-auctions'') req (c, w))),
           snd (doRequest env (logger_Session lg ''request-task-auctions'') req (c, w))))"
  by (simp add: RequestTaskAuctions_def taskRequest_def finishRequest_def classify_def Let_def
      split: sum.splits prod.splits)

lemma doRequest_response:
  "http_Do env w (httpClient c) req = Inr resp \<Longrightarrow>
   doRequest env lg req (c, w) =
     (Inr resp, (c, w\<lparr>attempts := attempts w @ [(httpClient c, req)]\<rparr>))"
  by (simp add: doRequest_def http_Client_Do_def)

lemma doRequest_no_fallback:
  "http_Do env w (httpClient c) req = Inl err \<Longrightarrow> requireTLS c \<or> insecureHTTPClient c = None \<Longrightarrow>
   doRequest env lg req (c, w) =
     (Inl err, (c, w\<lparr>attempts := attempts w @ [(httpClient c, req)]\<rparr>))"
  by (auto simp: doRequest_def http_Client_Do_def split: option.splits)

lemma doRequest_fallback:
  "http_Do env w (httpClient c) req = Inl err \<Longrightarrow> \<not> requireTLS c \<Longrightarrow> insecureHTTPClient c = Some ih \<Longrightarrow>
   doRequest env lg req (c, w) =
     (http_Do env
        (w\<lparr>attempts := attempts w @ [(httpClient c, req)],
           logged := logged w @ [(lg, ''retrying-on-http'', err)]\<rparr>)
        ih (req\<lparr>Body := drop (http_Do_read env w (httpClient c) req) (Body req),
                       URL := (URL req)\<lparr>Scheme := ''http''\<rparr>\<rparr>),
      (c, w\<lparr>attempts := attempts w @ [(httpClient c, req),
       (ih, req\<lparr>Body := drop (http_Do_read env w (httpClient c) req) (Body req),
                       URL := (URL req)\<lparr>Scheme := ''http''\<rparr>\<rparr>)],
            logged := logged w @ [(lg, ''retrying-on-http'', err)]\<rparr>))"
  by (simp add: doRequest_def http_Client_Do_def logger_Error_def Let_def)

lemma doRequest_attempts:
  "\<exists>rest. attempts (snd (snd (doRequest env lg req (c, w)))) = attempts w @ (httpClient c, req) # rest
      \<and> length rest \<le> 1
      \<and> (rest \<noteq> [] \<longleftrightarrow>
           isl (http_Do env w (httpClient c) req) \<and> \<not> requireTLS c \<and> insecureHTTPClient c \<noteq> None)
      \<and> (\<forall>a \<in> set rest. Some (fst a) = insecureHTTPClient c)"
proof (cases "http_Do env w (httpClient c) req")
  case (Inr resp)
  then show ?thesis by (simp add: doRequest_response)
next
  case (Inl err)
  show ?thesis
  proof (cases "requireTLS c \<or> insecureHTTPClient c = None")
    case True
    with Inl show ?thesis by (auto simp: doRequest_no_fallback)
  next
    case False
    then obtain ih where "\<not> requireTLS c" "insecureHTTPClient c = Some ih" by auto
    with Inl show ?thesis by (simp add: doRequest_fallback)
  qed
qed

text \<open>
  C1. Every HTTP attempt of a submit call is made by \<open>doRequest\<close> on the request the
  call has built. A call that fails before it has a request makes no attempt.
  Otherwise the first attempt goes through the secure client with that request; a
  further attempt exists exactly when that first attempt returned an error, TLS is not
  required and an insecure client is configured, and it goes through the insecure
  client; there are never more than two attempts.
\<close>

theorem transport_selection_policy:
  assumes "(call, built) = (RequestLRPAuctions env lg ctx lrpStarts, lrpRequest env c ctx lrpStarts)
         \<or> (call, built) = (RequestTaskAuctions env lg ctx tasks, taskRequest env c ctx tasks)"
  shows "\<exists>new. attempts (snd (snd (call (c, w)))) = attempts w @ new
           \<and> length new \<le> 2
           \<and> (case built of
                Inl err \<Rightarrow> new = []
              | Inr req \<Rightarrow>
                  (\<exists>rest. new = (httpClient c, req) # rest
                     \<and> (rest \<noteq> [] \<longleftrightarrow>
                          isl (http_Do env w (httpClient c) req) \<and> \<not> requireTLS c
                          \<and> insecureHTTPClient c \<noteq> None)
                     \<and> (\<forall>a \<in> set rest. Some (fst a) = insecureHTTPClient c)))"
proof (cases built)
  case (Inl err)
  with assms have
    "call = RequestLRPAuctions env lg ctx lrpStarts \<and> lrpRequest env c ctx lrpStarts = Inl err
     \<or> call = RequestTaskAuctions env lg ctx tasks \<and> taskRequest env c ctx tasks = Inl err"
    by auto
  then have "snd (snd (call (c, w))) = w"
    by (auto simp: RequestLRPAuctions_eq RequestTaskAuctions_eq)
  with Inl show ?thesis by simp
next
  case (Inr req)
  with assms have
    "call = RequestLRPAuctions env lg ctx lrpStarts \<and> lrpRequest env c ctx lrpStarts = Inr req
     \<or> call = RequestTaskAuctions env lg ctx tasks \<and> taskRequest env c ctx tasks = Inr req"
    by auto
  then obtain lg' where "snd (call (c, w)) = snd (doRequest env lg' req (c, w))"
    by (auto simp: RequestLRPAuctions_eq RequestTaskAuctions_eq)
  moreover obtain rest where
    "attempts (snd (snd (doRequest env lg' req (c, w)))) = attempts w @ (httpClient c, req) # rest"
    "length rest \<le> 1"
    "rest \<noteq> [] \<longleftrightarrow>
       isl (http_Do env w (httpClient c) req) \<and> \<not> requireTLS c \<and> insecureHTTPClient c \<noteq> None"
    "\<forall>a \<in> set rest. Some (fst a) = insecureHTTPClient c"
    using doRequest_attempts [of env lg' req c w] by blast
  ultimately show ?thesis using Inr
    by (intro exI [of _ "(httpClient c, req) # rest"]) auto
qed

lemmas sample_simps =
  sample_env_def sample_CreateRequest_def sample_client_def sample_request_def world0_def
  lrpRequest_def taskRequest_def finishRequest_def json_Marshal_def json_array_def encode_ptr_def

theorem transport_selection_policy_witness:
  "lrpRequest (sample_env net_plain_only) (sample_client False) Live (Some [Some ''{}''])
     = Inr (sample_request ''/v1/lrps'' ''[{}]'' Live)
   \<and> (\<exists>rest. attempts (snd (snd (RequestLRPAuctions (sample_env net_plain_only) [] Live
                 (Some [Some ''{}'']) (sample_client False, world0))))
               = attempts world0 @ (1, sample_request ''/v1/lrps'' ''[{}]'' Live) # rest
             \<and> length rest = 1)"
proof -
  let ?env = "sample_env net_plain_only"
  let ?c = "sample_client False"
  let ?b = "Some [Some ''{}'']"
  let ?req = "sample_request ''/v1/lrps'' ''[{}]'' Live"
  have b: "lrpRequest ?env ?c Live ?b = Inr ?req"
    by (simp add: sample_simps)
  have cnd: "isl (http_Do ?env world0 (httpClient ?c) ?req) \<and> \<not> requireTLS ?c
      \<and> insecureHTTPClient ?c \<noteq> None"
    by (simp add: sample_simps net_plain_only_def)
  have h: "httpClient ?c = 1"
    by (simp add: sample_client_def)
  from transport_selection_policy
    [where call = "RequestLRPAuctions ?env [] Live ?b" and built = "lrpRequest ?env ?c Live ?b"
       and env = ?env and lg = "[]" and ctx = Live and lrpStarts = ?b and c = ?c and w = world0]
  obtain new rest where
    "attempts (snd (snd (RequestLRPAuctions ?env [] Live ?b (?c, world0)))) = attempts world0 @ new"
    "length new \<le> 2" "new = (httpClient ?c, ?req) # rest" "rest \<noteq> []"
    unfolding b using cnd by auto
  then show ?thesis using b h
    by (intro conjI exI [of _ rest]) (auto simp: le_Suc_eq)
qed

lemma call_stages:
  assumes "(call, built, lg') =
             (RequestLRPAuctions env lg ctx lrpStarts, lrpRequest env c ctx lrpStarts,
              logger_Session lg ''request-lrp-auctions'')
         \<or> (call, built, lg') =
             (RequestTaskAuctions env lg ctx tasks, taskRequest env c ctx tasks,
              logger_Session lg ''request-task-auctions'')"
    and "built = Inr req"
  shows "call (c, w) =
           (classify env (fst (doRequest env lg' req (c, w))), snd (doRequest env lg' req (c, w)))"
proof -
  from assms have
    "call = RequestLRPAuctions env lg ctx lrpStarts \<and> lrpRequest env c ctx lrpStarts = Inr req
       \<and> lg' = logger_Session lg ''request-lrp-auctions''
     \<or> call = RequestTaskAuctions env lg ctx tasks \<and> taskRequest env c ctx tasks = Inr req
       \<and> lg' = logger_Session lg ''request-task-auctions''"
    by auto
  then show ?thesis
    by (auto simp: RequestLRPAuctions_eq RequestTaskAuctions_eq)
qed

subsection \<open>Classification of the response\<close>

text \<open>
  C2. When the attempt that decides a submit call completes with a response, the call
  returns nil exactly when the status code is 202, and for any other status it
  returns the error whose message holds the status code and its status text. When
  it is the secure attempt that completed with a response, that attempt is the only
  one and nothing else changes, whatever \<open>requireTLS\<close> is.
\<close>

theorem status_classification:
  assumes "(call, built, lg') =
             (RequestLRPAuctions env lg ctx lrpStarts, lrpRequest env c ctx lrpStarts,
              logger_Session lg ''request-lrp-auctions'')
         \<or> (call, built, lg') =
             (RequestTaskAuctions env lg ctx tasks, taskRequest env c ctx tasks,
              logger_Session lg ''request-task-auctions'')"
    and "built = Inr req"
    and "fst (doRequest env lg' req (c, w)) = Inr resp"
  shows "(fst (call (c, w)) = None \<longleftrightarrow> StatusCode resp = 202)
       \<and> (StatusCode resp \<noteq> 202 \<longrightarrow>
            fst (call (c, w)) =
              Some (GoError (''http error: status code '' @ fmt_d (StatusCode resp) @ '' (''
                             @ http_StatusText env (StatusCode resp) @ '')'')))
       \<and> (\<forall>resp1. http_Do env w (httpClient c) req = Inr resp1 \<longrightarrow>
            resp1 = resp
            \<and> snd (call (c, w)) = (c, w\<lparr>attempts := attempts w @ [(httpClient c, req)]\<rparr>))"
proof -
  have stages: "call (c, w) =
      (classify env (fst (doRequest env lg' req (c, w))), snd (doRequest env lg' req (c, w)))"
    using assms(1,2) by (rule call_stages)
  have res: "fst (call (c, w)) = classify env (Inr resp)"
    using stages assms(3) by simp
  have one: "resp1 = resp \<and> snd (call (c, w)) = (c, w\<lparr>attempts := attempts w @ [(httpClient c, req)]\<rparr>)"
    if "http_Do env w (httpClient c) req = Inr resp1" for resp1
    using that stages assms(3) by (simp add: doRequest_response)
  show ?thesis
    using res one by (simp add: classify_def http_error_def http_StatusAccepted_def)
qed


theorem status_classification_witness:
  "taskRequest (sample_env (net_status 500)) (sample_client False) Live (Some [])
     = Inr (sample_request ''/v1/tasks'' ''[]'' Live)
   \<and> fst (doRequest (sample_env (net_status 500)) (logger_Session [] ''request-task-auctions'')
            (sample_request ''/v1/tasks'' ''[]'' Live) (sample_client False, world0))
     = Inr \<lparr>StatusCode = 500\<rparr>
   \<and> fst (RequestTaskAuctions (sample_env (net_status 500)) [] Live (Some []) (sample_client False, world0))
     = Some (GoError ''http error: status code 500 (Internal Server Error)'')
   \<and> attempts (snd (snd (RequestTaskAuctions (sample_env (net_status 500)) [] Live (Some [])
        (sample_client False, world0))))
     = [(1, sample_request ''/v1/tasks'' ''[]'' Live)]"
proof -
  let ?env = "sample_env (net_status 500) :: (string, string, unit, string) env"
  let ?c = "sample_client False"
  let ?b = "Some [] :: string slice"
  let ?req = "sample_request ''/v1/tasks'' ''[]'' Live"
  let ?lg = "logger_Session [] ''request-task-auctions''"
  have b: "taskRequest ?env ?c Live ?b = Inr ?req"
    by (simp add: sample_simps)
  have net: "http_Do ?env world0 (httpClient ?c) ?req = Inr \<lparr>StatusCode = 500\<rparr>"
    by (simp add: sample_env_def net_status_def)
  have d: "fst (doRequest ?env ?lg ?req (?c, world0)) = Inr \<lparr>StatusCode = 500\<rparr>"
    by (simp add: doRequest_response [OF net])
  have code: "fmt_d 500 = ''500''"
    by code_simp
  have msg: "http_StatusText ?env 500 = ''Internal Server Error''"
    by (simp add: sample_env_def)
  have h: "httpClient ?c = 1" by (simp add: sample_client_def)
  have op: "(RequestTaskAuctions ?env [] Live ?b, taskRequest ?env ?c Live ?b, ?lg) =
             (RequestLRPAuctions ?env [] Live ?b, lrpRequest ?env ?c Live ?b,
              logger_Session [] ''request-lrp-auctions'')
         \<or> (RequestTaskAuctions ?env [] Live ?b, taskRequest ?env ?c Live ?b, ?lg) =
             (RequestTaskAuctions ?env [] Live ?b, taskRequest ?env ?c Live ?b,
              logger_Session [] ''request-task-auctions'')"
    by (rule disjI2) (rule refl)
  have r: "fst (RequestTaskAuctions ?env [] Live ?b (?c, world0)) =
             Some (GoError (''http error: status code '' @ fmt_d 500 @ '' (''
                             @ http_StatusText ?env 500 @ '')''))"
    and a: "snd (RequestTaskAuctions ?env [] Live ?b (?c, world0)) =
          (?c, world0\<lparr>attempts := attempts world0 @ [(httpClient ?c, ?req)]\<rparr>)"
    using status_classification [OF op b d] net by simp_all
  have a': "attempts (snd (snd (RequestTaskAuctions ?env [] Live ?b (?c, world0)))) = [(1, ?req)]"
    unfolding a by (simp add: world0_def h)
  show ?thesis
    using b d r a' unfolding code msg by simp
qed


subsection \<open>The fallback\<close>

text \<open>
  C6. When the fallback is taken and the insecure attempt fails as well, the call
  returns the error of the insecure attempt; the error of the secure attempt is
  written to the log under \<^verbatim>\<open>retrying-on-http\<close> and is not the one returned.
\<close>

theorem fallback_failure_returned:
  assumes "(call, built, lg') =
             (RequestLRPAuctions env lg ctx lrpStarts, lrpRequest env c ctx lrpStarts,
              logger_Session lg ''request-lrp-auctions'')
         \<or> (call, built, lg') =
             (RequestTaskAuctions env lg ctx tasks, taskRequest env c ctx tasks,
              logger_Session lg ''request-task-auctions'')"
    and "built = Inr req"
    and "http_Do env w (httpClient c) req = Inl err1"
    and "\<not> requireTLS c"
    and "insecureHTTPClient c = Some ih"
    and "http_Do env
           (w\<lparr>attempts := attempts w @ [(httpClient c, req)],
              logged := logged w @ [(lg', ''retrying-on-http'', err1)]\<rparr>)
           ih (req\<lparr>Body := drop (http_Do_read env w (httpClient c) req) (Body req),
                          URL := (URL req)\<lparr>Scheme := ''http''\<rparr>\<rparr>) = Inl err2"
  shows "fst (call (c, w)) = Some err2
       \<and> logged (snd (snd (call (c, w)))) = logged w @ [(lg', ''retrying-on-http'', err1)]"
proof -
  have "call (c, w) =
      (classify env (fst (doRequest env lg' req (c, w))), snd (doRequest env lg' req (c, w)))"
    using assms(1,2) by (rule call_stages)
  then show ?thesis
    using assms(6) by (simp add: doRequest_fallback [OF assms(3,4,5)] classify_def)
qed

theorem fallback_failure_returned_witness:
  "lrpRequest (sample_env net_down) (sample_client False) Live (Some [None])
     = Inr (sample_request ''/v1/lrps'' ''[null]'' Live)
   \<and> http_Do (sample_env net_down) world0 1 (sample_request ''/v1/lrps'' ''[null]'' Live)
     = Inl (GoError ''tls: handshake failure'')
   \<and> fst (RequestLRPAuctions (sample_env net_down) [''bbs''] Live (Some [None]) (sample_client False, world0))
     = Some (GoError ''dial tcp: connection refused'')
   \<and> logged (snd (snd (RequestLRPAuctions (sample_env net_down) [''bbs''] Live (Some [None])
        (sample_client False, world0))))
     = [([''bbs'', ''request-lrp-auctions''], ''retrying-on-http'', GoError ''tls: handshake failure'')]"
proof -
  let ?env = "sample_env net_down :: (string, string, unit, string) env"
  let ?c = "sample_client False"
  let ?b = "Some [None] :: string slice"
  let ?req = "sample_request ''/v1/lrps'' ''[null]'' Live"
  let ?lg = "logger_Session [''bbs''] ''request-lrp-auctions''"
  let ?e1 = "GoError ''tls: handshake failure''"
  let ?e2 = "GoError ''dial tcp: connection refused''"
  have b: "lrpRequest ?env ?c Live ?b = Inr ?req"
    by (simp add: sample_simps)
  have h: "httpClient ?c = 1" "\<not> requireTLS ?c" "insecureHTTPClient ?c = Some 0"
    by (simp_all add: sample_client_def)
  have n1: "http_Do ?env world0 (httpClient ?c) ?req = Inl ?e1"
    by (simp add: sample_env_def net_down_def sample_request_def)
  have n2: "http_Do ?env
           (world0\<lparr>attempts := attempts world0 @ [(httpClient ?c, ?req)],
              logged := logged world0 @ [(?lg, ''retrying-on-http'', ?e1)]\<rparr>)
           0 (?req\<lparr>Body := drop (http_Do_read ?env world0 (httpClient ?c) ?req) (Body ?req),
                          URL := (URL ?req)\<lparr>Scheme := ''http''\<rparr>\<rparr>) = Inl ?e2"
    by (simp add: sample_env_def net_down_def sample_request_def)
  have op: "(RequestLRPAuctions ?env [''bbs''] Live ?b, lrpRequest ?env ?c Live ?b, ?lg) =
             (RequestLRPAuctions ?env [''bbs''] Live ?b, lrpRequest ?env ?c Live ?b,
              logger_Session [''bbs''] ''request-lrp-auctions'')
         \<or> (RequestLRPAuctions ?env [''bbs''] Live ?b, lrpRequest ?env ?c Live ?b, ?lg) =
             (RequestTaskAuctions ?env [''bbs''] Live ?b, taskRequest ?env ?c Live ?b,
              logger_Session [''bbs''] ''request-task-auctions'')"
    by (rule disjI1) (rule refl)
  have r: "fst (RequestLRPAuctions ?env [''bbs''] Live ?b (?c, world0)) = Some ?e2"
    and l: "logged (snd (snd (RequestLRPAuctions ?env [''bbs''] Live ?b (?c, world0)))) =
            logged world0 @ [(?lg, ''retrying-on-http'', ?e1)]"
    using fallback_failure_returned [OF op b n1 h(2) h(3) n2] by simp_all
  have l': "logged world0 @ [(?lg, ''retrying-on-http'', ?e1)] =
            [([''bbs'', ''request-lrp-auctions''], ''retrying-on-http'', ?e1)]"
    by (simp add: world0_def logger_Session_def)
  show ?thesis
    using b n1 r l unfolding l' h(1) by simp
qed




subsection \<open>The configuration\<close>

text \<open>
  C9. No submit call (and no call of \<open>doRequest\<close>) writes a field of the client: the
  receiver after the call is the receiver before it, with its base URL, its
  \<open>requireTLS\<close> flag, its two transport handles and its trace function.
\<close>

theorem configuration_not_mutated:
  "fst (snd (doRequest env lg req (c, w))) = c
   \<and> fst (snd (RequestLRPAuctions env lg ctx lrpStarts (c, w))) = c
   \<and> fst (snd (RequestTaskAuctions env lg ctx tasks (c, w))) = c"
proof -
  have d: "fst (snd (doRequest env lg' req' (c, w))) = c" for lg' req'
    by (simp add: doRequest_def http_Client_Do_def Let_def split: sum.splits option.splits prod.splits)
  show ?thesis
    by (simp add: d RequestLRPAuctions_eq RequestTaskAuctions_eq split: sum.splits)
qed

subsection \<open>What the constructors return\<close>

lemma NewSecureClient_eq:
  "NewSecureClient env auctioneerURL caFile certFile keyFile reqTLS tracer w =
     (case cfhttp_NewTLSConfig env certFile keyFile caFile of
        Inl err \<Rightarrow> (Inl err, w\<lparr>heap := heap w @ [cfhttp_Client env, cfhttp_Client env]\<rparr>)
      | Inr tlsConfig \<Rightarrow>
          (case Transport (cfhttp_Client env) of
             http_Transport old \<Rightarrow>
               (Inr \<lparr>httpClient = Suc (length (heap w)),
                     insecureHTTPClient = Some (length (heap w)),
                     url = auctioneerURL,
                     requireTLS = reqTLS,
                     traceRequest = middleware_ToHTTPRequest env tracer\<rparr>,
                w\<lparr>heap := heap w @ [cfhttp_Client env,
                       (cfhttp_Client env)\<lparr>Transport := http_Transport (Some tlsConfig)\<rparr>]\<rparr>)
           | other_RoundTripper \<Rightarrow>
               (Inl (GoError ''Invalid transport''),
                w\<lparr>heap := heap w @ [cfhttp_Client env, cfhttp_Client env]\<rparr>)))"
  by (simp add: NewSecureClient_def cfhttp_NewClient_def nth_append list_update_append
      split: sum.splits round_tripper.splits)

lemma doRequest_requireTLS:
  "requireTLS c \<Longrightarrow>
   attempts (snd (snd (doRequest env lg req (c, w)))) = attempts w @ [(httpClient c, req)]"
  by (cases "http_Do env w (httpClient c) req") (simp_all add: doRequest_response doRequest_no_fallback)

text \<open>
  C3 (as amended). Every configuration that \<open>NewSecureClient\<close> returns holds an insecure
  transport handle, the first client it allocated, whether \<open>requireTLS\<close> is true or
  false; a configuration that \<open>NewClient\<close> returns holds none. With \<open>requireTLS\<close>
  true the handle is present but unused: every request is attempted once, through
  the secure client.
\<close>

theorem insecure_handle_presence:
  "(\<forall>c. fst (NewSecureClient env auctioneerURL caFile certFile keyFile reqTLS tracer w) = Inr c \<longrightarrow>
        insecureHTTPClient c = Some (length (heap w))
      \<and> httpClient c = Suc (length (heap w))
      \<and> requireTLS c = reqTLS
      \<and> (reqTLS \<longrightarrow>
           (\<forall>lg req w'. attempts (snd (snd (doRequest env lg req (c, w')))) =
                         attempts w' @ [(httpClient c, req)])))
   \<and> insecureHTTPClient (fst (NewClient env auctioneerURL tracer w)) = None"
proof -
  have "insecureHTTPClient (fst (NewClient env auctioneerURL tracer w)) = None"
    by (simp add: NewClient_def cfhttp_NewClient_def)
  moreover have
    "insecureHTTPClient c = Some (length (heap w)) \<and> httpClient c = Suc (length (heap w))
     \<and> requireTLS c = reqTLS
     \<and> (reqTLS \<longrightarrow>
           (\<forall>lg req w'. attempts (snd (snd (doRequest env lg req (c, w')))) =
                         attempts w' @ [(httpClient c, req)]))"
    if "fst (NewSecureClient env auctioneerURL caFile certFile keyFile reqTLS tracer w) = Inr c" for c
  proof -
    from that have f: "insecureHTTPClient c = Some (length (heap w))"
        "httpClient c = Suc (length (heap w))" "requireTLS c = reqTLS"
      by (auto simp: NewSecureClient_eq split: sum.splits round_tripper.splits)
    then show ?thesis using doRequest_requireTLS [where env = env and c = c] by simp
  qed
  ultimately show ?thesis by blast
qed

theorem insecure_handle_presence_witness:
  "fst (NewSecureClient (sample_env net_down) ''https://auctioneer:9016'' ''ca.crt'' ''client.crt''
         ''client.key'' True () world0) = Inr (sample_client True)
   \<and> insecureHTTPClient (sample_client True) = Some 0
   \<and> attempts (snd (snd (doRequest (sample_env net_down) [] (sample_request ''/v1/lrps'' ''[]'' Live)
        (sample_client True, world0))))
     = [(1, sample_request ''/v1/lrps'' ''[]'' Live)]"
proof -
  let ?env = "sample_env net_down :: (string, string, unit, string) env"
  have n: "fst (NewSecureClient ?env ''https://auctioneer:9016'' ''ca.crt'' ''client.crt''
         ''client.key'' True () world0) = Inr (sample_client True)"
    by (simp add: NewSecureClient_eq sample_env_def sample_client_def world0_def)
  have h: "length (heap world0) = 0" "attempts world0 = []"
    by (simp_all add: world0_def)
  from insecure_handle_presence
    [of ?env "''https://auctioneer:9016''" "''ca.crt''" "''client.crt''" "''client.key''" True "()" world0]
  have "insecureHTTPClient (sample_client True) = Some (length (heap world0))"
    and "httpClient (sample_client True) = Suc (length (heap world0))"
    and "attempts (snd (snd (doRequest ?env [] (sample_request ''/v1/lrps'' ''[]'' Live)
           (sample_client True, world0)))) =
         attempts world0 @ [(httpClient (sample_client True), sample_request ''/v1/lrps'' ''[]'' Live)]"
    using n by simp_all
  then show ?thesis using n h by simp
qed

text \<open>
  C3 as stated fails: \<open>NewSecureClient\<close> called with \<open>requireTLS\<close> true returns a
  configuration that holds an insecure transport handle.
\<close>

theorem insecure_handle_with_requireTLS_counterexample:
  "fst (NewSecureClient (sample_env net_down) ''https://auctioneer:9016'' ''ca.crt'' ''client.crt''
         ''client.key'' True () world0) = Inr (sample_client True)
   \<and> requireTLS (sample_client True)
   \<and> insecureHTTPClient (sample_client True) = Some 0"
  by (simp add: NewSecureClient_eq sample_env_def sample_client_def world0_def)

text \<open>
  C8. When the TLS loader returns an error, \<open>NewSecureClient\<close> returns that error
  and no client; when the loader succeeds but the transport of the new client is
  not an \<^verbatim>\<open>*http.Transport\<close>, it returns the error \<^verbatim>\<open>Invalid transport\<close> and no
  client; a client is returned only when neither happens.
\<close>

theorem NewSecureClient_failure:
  "(\<forall>err. cfhttp_NewTLSConfig env certFile keyFile caFile = Inl err \<longrightarrow>
        fst (NewSecureClient env auctioneerURL caFile certFile keyFile reqTLS tracer w) = Inl err)
   \<and> (\<not> isl (cfhttp_NewTLSConfig env certFile keyFile caFile)
        \<and> Transport (cfhttp_Client env) = other_RoundTripper \<longrightarrow>
        fst (NewSecureClient env auctioneerURL caFile certFile keyFile reqTLS tracer w) =
          Inl (GoError ''Invalid transport''))
   \<and> (\<forall>c. fst (NewSecureClient env auctioneerURL caFile certFile keyFile reqTLS tracer w) = Inr c \<longrightarrow>
        \<not> isl (cfhttp_NewTLSConfig env certFile keyFile caFile)
        \<and> Transport (cfhttp_Client env) \<noteq> other_RoundTripper)"
  by (auto simp: NewSecureClient_eq split: sum.splits round_tripper.splits)

theorem NewSecureClient_failure_witness:
  "cfhttp_NewTLSConfig (sample_env net_down) [] ''client.key'' ''ca.crt''
     = Inl (GoError ''open : no such file or directory'')
   \<and> fst (NewSecureClient (sample_env net_down) ''https://auctioneer:9016'' ''ca.crt'' []
        ''client.key'' False () world0)
     = Inl (GoError ''open : no such file or directory'')
   \<and> \<not> isl (cfhttp_NewTLSConfig ((sample_env net_down)\<lparr>cfhttp_Client := \<lparr>Transport = other_RoundTripper\<rparr>\<rparr>)
             ''client.crt'' ''client.key'' ''ca.crt'')
   \<and> fst (NewSecureClient ((sample_env net_down)\<lparr>cfhttp_Client := \<lparr>Transport = other_RoundTripper\<rparr>\<rparr>)
        ''https://auctioneer:9016'' ''ca.crt'' ''client.crt'' ''client.key'' False () world0)
     = Inl (GoError ''Invalid transport'')"
proof -
  let ?env = "sample_env net_down :: (string, string, unit, string) env"
  let ?env2 = "?env\<lparr>cfhttp_Client := \<lparr>Transport = other_RoundTripper\<rparr>\<rparr>"
  have a: "cfhttp_NewTLSConfig ?env [] ''client.key'' ''ca.crt''
     = Inl (GoError ''open : no such file or directory'')"
    by (simp add: sample_env_def)
  have b: "\<not> isl (cfhttp_NewTLSConfig ?env2 ''client.crt'' ''client.key'' ''ca.crt'')"
      "Transport (cfhttp_Client ?env2) = other_RoundTripper"
    by (simp_all add: sample_env_def)
  show ?thesis
    using a b
      NewSecureClient_failure [of ?env "[]" "''client.key''" "''ca.crt''" "''https://auctioneer:9016''" False "()" world0]
      NewSecureClient_failure [of ?env2 "''client.crt''" "''client.key''" "''ca.crt''" "''https://auctioneer:9016''" False "()" world0]
    by simp
qed

subsection \<open>Serialization\<close>

lemma encode_elems_ok:
  "\<forall>p \<in> set ps. \<exists>j. encode_ptr enc p = Inr j \<Longrightarrow>
   \<exists>js. encode_elems enc ps = Inr js \<and> length js = length ps
        \<and> (\<forall>i < length ps. encode_ptr enc (ps ! i) = Inr (js ! i))"
proof (induction ps)
  case Nil
  then show ?case by simp
next
  case (Cons p ps)
  then obtain j js where j: "encode_ptr enc p = Inr j"
    and js: "encode_elems enc ps = Inr js" "length js = length ps"
      "\<forall>i < length ps. encode_ptr enc (ps ! i) = Inr (js ! i)"
    by auto
  have "\<forall>i < length (p # ps). encode_ptr enc ((p # ps) ! i) = Inr ((j # js) ! i)"
    using j js(3) by (auto simp: nth_Cons split: nat.splits)
  then show ?case using j js(1,2) by simp
qed

lemma json_Marshal_ok:
  assumes "\<forall>p \<in> set ps. \<exists>j. encode_ptr enc p = Inr j"
  shows "\<exists>js. json_Marshal enc (Some ps) = Inr (json_array js) \<and> length js = length ps
           \<and> (\<forall>i < length ps. encode_ptr enc (ps ! i) = Inr (js ! i))"
  using encode_elems_ok [OF assms] by (auto simp: json_Marshal_def)

text \<open>
  C4 (as amended). For every batch that is not nil and whose elements all encode,
  \<^verbatim>\<open>json.Marshal\<close> returns one JSON array with as many elements as the batch, the
  \<open>i\<close>-th being the encoding of the \<open>i\<close>-th element of the batch, and this text is
  the body handed to the request generator; for the empty batch that is not nil the
  array is \<^verbatim>\<open>[]\<close>. For the nil batch the body is \<^verbatim>\<open>null\<close>.
\<close>

theorem batch_serialization:
  assumes "\<forall>p \<in> set lrps. \<exists>j. encode_ptr (marshal_LRPStartRequest env) p = Inr j"
    and "\<forall>p \<in> set tasks. \<exists>j. encode_ptr (marshal_TaskStartRequest env) p = Inr j"
  shows "(\<exists>js. json_Marshal (marshal_LRPStartRequest env) (Some lrps) = Inr (json_array js)
            \<and> length js = length lrps
            \<and> (\<forall>i < length lrps. encode_ptr (marshal_LRPStartRequest env) (lrps ! i) = Inr (js ! i))
            \<and> lrpRequest env c ctx (Some lrps) =
                (case rata_CreateRequest env (url c) (CreateLRPAuctionsRoute env) (json_array js) of
                   Inl err \<Rightarrow> Inl err
                 | Inr req0 \<Rightarrow> Inr (finishRequest c ctx req0)))
       \<and> (\<exists>js. json_Marshal (marshal_TaskStartRequest env) (Some tasks) = Inr (json_array js)
            \<and> length js = length tasks
            \<and> (\<forall>i < length tasks. encode_ptr (marshal_TaskStartRequest env) (tasks ! i) = Inr (js ! i))
            \<and> taskRequest env c ctx (Some tasks) =
                (case rata_CreateRequest env (url c) (CreateTaskAuctionsRoute env) (json_array js) of
                   Inl err \<Rightarrow> Inl err
                 | Inr req0 \<Rightarrow> Inr (finishRequest c ctx req0)))
       \<and> json_array [] = ''[]''
       \<and> json_Marshal (marshal_LRPStartRequest env) None = Inr ''null''
       \<and> json_Marshal (marshal_TaskStartRequest env) None = Inr ''null''"
proof -
  obtain js where js: "json_Marshal (marshal_LRPStartRequest env) (Some lrps) = Inr (json_array js)"
      "length js = length lrps"
      "\<forall>i < length lrps. encode_ptr (marshal_LRPStartRequest env) (lrps ! i) = Inr (js ! i)"
    using json_Marshal_ok [OF assms(1)] by blast
  obtain ks where ks: "json_Marshal (marshal_TaskStartRequest env) (Some tasks) = Inr (json_array ks)"
      "length ks = length tasks"
      "\<forall>i < length tasks. encode_ptr (marshal_TaskStartRequest env) (tasks ! i) = Inr (ks ! i)"
    using json_Marshal_ok [OF assms(2)] by blast
  have l: "lrpRequest env c ctx (Some lrps) =
      (case rata_CreateRequest env (url c) (CreateLRPAuctionsRoute env) (json_array js) of
         Inl err \<Rightarrow> Inl err
       | Inr req0 \<Rightarrow> Inr (finishRequest c ctx req0))"
    by (simp add: lrpRequest_def js(1))
  have t: "taskRequest env c ctx (Some tasks) =
      (case rata_CreateRequest env (url c) (CreateTaskAuctionsRoute env) (json_array ks) of
         Inl err \<Rightarrow> Inl err
       | Inr req0 \<Rightarrow> Inr (finishRequest c ctx req0))"
    by (simp add: taskRequest_def ks(1))
  have n: "json_array [] = ''[]''"
      "json_Marshal (marshal_LRPStartRequest env) None = Inr ''null''"
      "json_Marshal (marshal_TaskStartRequest env) None = Inr ''null''"
    by (simp_all add: json_array_def json_Marshal_def)
  from js l have "\<exists>js. json_Marshal (marshal_LRPStartRequest env) (Some lrps) = Inr (json_array js)
            \<and> length js = length lrps
            \<and> (\<forall>i < length lrps. encode_ptr (marshal_LRPStartRequest env) (lrps ! i) = Inr (js ! i))
            \<and> lrpRequest env c ctx (Some lrps) =
                (case rata_CreateRequest env (url c) (CreateLRPAuctionsRoute env) (json_array js) of
                   Inl err \<Rightarrow> Inl err
                 | Inr req0 \<Rightarrow> Inr (finishRequest c ctx req0))"
    by blast
  moreover from ks t have "\<exists>js. json_Marshal (marshal_TaskStartRequest env) (Some tasks) = Inr (json_array js)
            \<and> length js = length tasks
            \<and> (\<forall>i < length tasks. encode_ptr (marshal_TaskStartRequest env) (tasks ! i) = Inr (js ! i))
            \<and> taskRequest env c ctx (Some tasks) =
                (case rata_CreateRequest env (url c) (CreateTaskAuctionsRoute env) (json_array js) of
                   Inl err \<Rightarrow> Inl err
                 | Inr req0 \<Rightarrow> Inr (finishRequest c ctx req0))"
    by blast
  ultimately show ?thesis using n by blast
qed

theorem batch_serialization_witness:
  "json_Marshal (marshal_LRPStartRequest (sample_env net_down)) (Some [Some ''{\"index\":0}'', None, Some ''{\"index\":2}''])
     = Inr ''[{\"index\":0},null,{\"index\":2}]''
   \<and> json_Marshal (marshal_TaskStartRequest (sample_env net_down)) (Some []) = Inr ''[]''
   \<and> (\<exists>js. json_Marshal (marshal_LRPStartRequest (sample_env net_down))
               (Some [Some ''{\"index\":0}'', None, Some ''{\"index\":2}'']) = Inr (json_array js)
           \<and> length js = 3)"
proof -
  let ?env = "sample_env net_down :: (string, string, unit, string) env"
  let ?lrps = "[Some ''{\"index\":0}'', None, Some ''{\"index\":2}'']"
  have a: "\<forall>p \<in> set ?lrps. \<exists>j. encode_ptr (marshal_LRPStartRequest ?env) p = Inr j"
    by (simp add: sample_env_def encode_ptr_def)
  have b: "\<forall>p \<in> set ([] :: string option list). \<exists>j. encode_ptr (marshal_TaskStartRequest ?env) p = Inr j"
    by simp
  have v: "json_Marshal (marshal_LRPStartRequest ?env) (Some ?lrps) = Inr ''[{\"index\":0},null,{\"index\":2}]''"
      "json_Marshal (marshal_TaskStartRequest ?env) (Some []) = Inr ''[]''"
    by (simp_all add: sample_env_def json_Marshal_def json_array_def encode_ptr_def)
  from batch_serialization [OF a b]
  have "\<exists>js. json_Marshal (marshal_LRPStartRequest ?env) (Some ?lrps) = Inr (json_array js)
           \<and> length js = length ?lrps"
    by blast
  then have "\<exists>js. json_Marshal (marshal_LRPStartRequest ?env) (Some ?lrps) = Inr (json_array js)
           \<and> length js = 3"
    by (simp add: numeral_3_eq_3)
  then show ?thesis using v by blast
qed

text \<open>
  C4 as stated fails: the nil slice is a batch of length 0, and the request a call
  sends for it has the body \<^verbatim>\<open>null\<close>, which is not the empty JSON array.
\<close>

theorem nil_batch_counterexample:
  "slice_len (None :: string slice) = 0
   \<and> json_Marshal (marshal_LRPStartRequest (sample_env (net_status 202))) None = Inr ''null''
   \<and> ''null'' \<noteq> json_array []
   \<and> fst (RequestLRPAuctions (sample_env (net_status 202)) [] Live None (sample_client True, world0)) = None
   \<and> map (\<lambda>a. Body (snd a))
        (attempts (snd (snd (RequestLRPAuctions (sample_env (net_status 202)) [] Live None
           (sample_client True, world0))))) = [''null'']"
proof -
  let ?env = "sample_env (net_status 202) :: (string, string, unit, string) env"
  let ?c = "sample_client True"
  let ?req = "sample_request ''/v1/lrps'' ''null'' Live"
  have b: "lrpRequest ?env ?c Live None = Inr ?req"
    by (simp add: sample_simps)
  have n: "http_Do ?env world0 (httpClient ?c) ?req = Inr \<lparr>StatusCode = 202\<rparr>"
    by (simp add: sample_env_def net_status_def)
  have r: "RequestLRPAuctions ?env [] Live None (?c, world0) =
      (None, (?c, world0\<lparr>attempts := attempts world0 @ [(httpClient ?c, ?req)]\<rparr>))"
    by (simp add: RequestLRPAuctions_eq b doRequest_response [OF n] classify_def
        http_StatusAccepted_def)
  show ?thesis
    unfolding r
    by (simp add: slice_len_def json_Marshal_def json_array_def world0_def sample_request_def)
qed

subsection \<open>A context that is already done\<close>

text \<open>
  C5 (as amended). \<open>doRequest\<close> never looks at the context. When the context of the
  request is already cancelled or expired and the secure attempt fails, the call
  does what it does after any other failure of the secure attempt: with \<open>requireTLS\<close>
  true or no insecure client it returns the error of the secure attempt after that
  one attempt; otherwise it logs the error, makes the one fallback attempt through
  the insecure client with the same context, and returns what that attempt gives.
\<close>

theorem cancelled_context_policy:
  assumes "(call, built, lg') =
             (RequestLRPAuctions env lg ctx lrpStarts, lrpRequest env c ctx lrpStarts,
              logger_Session lg ''request-lrp-auctions'')
         \<or> (call, built, lg') =
             (RequestTaskAuctions env lg ctx tasks, taskRequest env c ctx tasks,
              logger_Session lg ''request-task-auctions'')"
    and "built = Inr req"
    and "Ctx req \<noteq> Live"
    and "http_Do env w (httpClient c) req = Inl err1"
  shows "(requireTLS c \<or> insecureHTTPClient c = None \<longrightarrow>
            call (c, w) = (Some err1, (c, w\<lparr>attempts := attempts w @ [(httpClient c, req)]\<rparr>)))
       \<and> (\<forall>ih. \<not> requireTLS c \<and> insecureHTTPClient c = Some ih \<longrightarrow>
            call (c, w) =
              (classify env
                 (http_Do env
                    (w\<lparr>attempts := attempts w @ [(httpClient c, req)],
                       logged := logged w @ [(lg', ''retrying-on-http'', err1)]\<rparr>)
                    ih (req\<lparr>Body := drop (http_Do_read env w (httpClient c) req) (Body req),
                                   URL := (URL req)\<lparr>Scheme := ''http''\<rparr>\<rparr>)),
               (c, w\<lparr>attempts := attempts w @
                        [(httpClient c, req),
                         (ih, req\<lparr>Body := drop (http_Do_read env w (httpClient c) req) (Body req),
                                         URL := (URL req)\<lparr>Scheme := ''http''\<rparr>\<rparr>)],
                      logged := logged w @ [(lg', ''retrying-on-http'', err1)]\<rparr>))
            \<and> Ctx (req\<lparr>Body := drop (http_Do_read env w (httpClient c) req) (Body req),
                                   URL := (URL req)\<lparr>Scheme := ''http''\<rparr>\<rparr>) = Ctx req)"
proof -
  have stages: "call (c, w) =
      (classify env (fst (doRequest env lg' req (c, w))), snd (doRequest env lg' req (c, w)))"
    using assms(1,2) by (rule call_stages)
  have one: "call (c, w) = (Some err1, (c, w\<lparr>attempts := attempts w @ [(httpClient c, req)]\<rparr>))"
    if "requireTLS c \<or> insecureHTTPClient c = None"
    using stages doRequest_no_fallback [OF assms(4) that] by (simp add: classify_def)
  have two: "call (c, w) =
              (classify env
                 (http_Do env
                    (w\<lparr>attempts := attempts w @ [(httpClient c, req)],
                       logged := logged w @ [(lg', ''retrying-on-http'', err1)]\<rparr>)
                    ih (req\<lparr>Body := drop (http_Do_read env w (httpClient c) req) (Body req),
                                   URL := (URL req)\<lparr>Scheme := ''http''\<rparr>\<rparr>)),
               (c, w\<lparr>attempts := attempts w @
                        [(httpClient c, req),
                         (ih, req\<lparr>Body := drop (http_Do_read env w (httpClient c) req) (Body req),
                                         URL := (URL req)\<lparr>Scheme := ''http''\<rparr>\<rparr>)],
                      logged := logged w @ [(lg', ''retrying-on-http'', err1)]\<rparr>))"
    if "\<not> requireTLS c" "insecureHTTPClient c = Some ih" for ih
    using stages doRequest_fallback [OF assms(4) that] by simp
  show ?thesis using one two by simp
qed

theorem cancelled_context_policy_witness:
  "taskRequest (sample_env net_ctx) (sample_client False) DeadlineExceeded (Some [])
     = Inr (sample_request ''/v1/tasks'' ''[]'' DeadlineExceeded)
   \<and> http_Do (sample_env net_ctx) world0 1 (sample_request ''/v1/tasks'' ''[]'' DeadlineExceeded)
     = Inl (GoError ''context canceled'')
   \<and> insecureHTTPClient (sample_client False) = Some 0
   \<and> RequestTaskAuctions (sample_env net_ctx) [] DeadlineExceeded (Some []) (sample_client False, world0)
     = (Some (GoError ''context canceled''),
        (sample_client False,
         \<lparr>heap = [],
          attempts = [(1, sample_request ''/v1/tasks'' ''[]'' DeadlineExceeded),
                      (0, (sample_request ''/v1/tasks'' ''[]'' DeadlineExceeded)
                            \<lparr>URL := \<lparr>Scheme = ''http'', Host = ''auctioneer:9016'', Path = ''/v1/tasks''\<rparr>\<rparr>)],
          logged = [([''request-task-auctions''], ''retrying-on-http'', GoError ''context canceled'')]\<rparr>))"
proof -
  let ?env = "sample_env net_ctx :: (string, string, unit, string) env"
  let ?c = "sample_client False"
  let ?b = "Some [] :: string slice"
  let ?req = "sample_request ''/v1/tasks'' ''[]'' DeadlineExceeded"
  let ?lg = "logger_Session [] ''request-task-auctions''"
  let ?e = "GoError ''context canceled''"
  have b: "taskRequest ?env ?c DeadlineExceeded ?b = Inr ?req"
    by (simp add: sample_simps)
  have x: "Ctx ?req \<noteq> Live"
    by (simp add: sample_request_def)
  have h: "httpClient ?c = 1" "\<not> requireTLS ?c" "insecureHTTPClient ?c = Some 0"
    by (simp_all add: sample_client_def)
  have n1: "http_Do ?env world0 (httpClient ?c) ?req = Inl ?e"
    by (simp add: sample_env_def net_ctx_def sample_request_def)
  have n2: "http_Do ?env
           (world0\<lparr>attempts := attempts world0 @ [(httpClient ?c, ?req)],
              logged := logged world0 @ [(?lg, ''retrying-on-http'', ?e)]\<rparr>)
           0 (?req\<lparr>Body := drop (http_Do_read ?env world0 (httpClient ?c) ?req) (Body ?req),
                          URL := (URL ?req)\<lparr>Scheme := ''http''\<rparr>\<rparr>) = Inl ?e"
    by (simp add: sample_env_def net_ctx_def sample_request_def)
  have op: "(RequestTaskAuctions ?env [] DeadlineExceeded ?b, taskRequest ?env ?c DeadlineExceeded ?b, ?lg) =
             (RequestLRPAuctions ?env [] DeadlineExceeded ?b, lrpRequest ?env ?c DeadlineExceeded ?b,
              logger_Session [] ''request-lrp-auctions'')
         \<or> (RequestTaskAuctions ?env [] DeadlineExceeded ?b, taskRequest ?env ?c DeadlineExceeded ?b, ?lg) =
             (RequestTaskAuctions ?env [] DeadlineExceeded ?b, taskRequest ?env ?c DeadlineExceeded ?b,
              logger_Session [] ''request-task-auctions'')"
    by (rule disjI2) (rule refl)
  have r: "RequestTaskAuctions ?env [] DeadlineExceeded ?b (?c, world0) =
              (classify ?env (Inl ?e),
               (?c, world0\<lparr>attempts := attempts world0 @
                        [(httpClient ?c, ?req),
                         (0, ?req\<lparr>Body := drop (http_Do_read ?env world0 (httpClient ?c) ?req) (Body ?req),
                                         URL := (URL ?req)\<lparr>Scheme := ''http''\<rparr>\<rparr>)],
                      logged := logged world0 @ [(?lg, ''retrying-on-http'', ?e)]\<rparr>))"
    using cancelled_context_policy [OF op b x n1] h(2,3) by (simp add: n2)
  have rd: "http_Do_read ?env w' h' r' = 0" for w' h' r'
    by (simp add: sample_env_def)
  show ?thesis
    using b n1 h(3) r unfolding h(1)
    by (simp add: classify_def world0_def logger_Session_def sample_request_def rd)
qed

text \<open>
  C5 as stated fails: with a cancelled context, TLS not required and an insecure
  client configured, the call goes on to the insecure client after the secure
  attempt has failed with the cancellation error.
\<close>

theorem cancelled_context_fallback_counterexample:
  "lrpRequest (sample_env net_ctx) (sample_client False) Canceled (Some [Some ''{}''])
     = Inr (sample_request ''/v1/lrps'' ''[{}]'' Canceled)
   \<and> http_Do (sample_env net_ctx) world0 1 (sample_request ''/v1/lrps'' ''[{}]'' Canceled)
     = Inl (GoError ''context canceled'')
   \<and> insecureHTTPClient (sample_client False) = Some 0
   \<and> map fst (attempts (snd (snd (RequestLRPAuctions (sample_env net_ctx) [] Canceled (Some [Some ''{}''])
        (sample_client False, world0))))) = [1, 0]
   \<and> map (\<lambda>a. Ctx (snd a)) (attempts (snd (snd (RequestLRPAuctions (sample_env net_ctx) [] Canceled
        (Some [Some ''{}'']) (sample_client False, world0))))) = [Canceled, Canceled]"
proof -
  let ?env = "sample_env net_ctx :: (string, string, unit, string) env"
  let ?c = "sample_client False"
  let ?b = "Some [Some ''{}''] :: string slice"
  let ?req = "sample_request ''/v1/lrps'' ''[{}]'' Canceled"
  let ?run = "RequestLRPAuctions ?env [] Canceled ?b (?c, world0)"
  have b: "lrpRequest ?env ?c Canceled ?b = Inr ?req"
    by (simp add: sample_simps)
  have h: "httpClient ?c = 1" "\<not> requireTLS ?c" "insecureHTTPClient ?c = Some 0"
    by (simp_all add: sample_client_def)
  have n1: "http_Do ?env world0 (httpClient ?c) ?req = Inl (GoError ''context canceled'')"
    by (simp add: sample_env_def net_ctx_def sample_request_def)
  have st: "snd ?run = snd (doRequest ?env (logger_Session [] ''request-lrp-auctions'') ?req (?c, world0))"
    by (simp only: RequestLRPAuctions_eq b sum.case snd_conv)
  have two: "attempts (snd (snd ?run)) =
      [(1, ?req), (0, ?req\<lparr>Body := drop (http_Do_read ?env world0 (httpClient ?c) ?req) (Body ?req),
                                  URL := (URL ?req)\<lparr>Scheme := ''http''\<rparr>\<rparr>)]"
    unfolding st doRequest_fallback [OF n1 h(2) h(3)] by (simp add: world0_def h(1))
  show ?thesis
    using b n1 h(3) unfolding two h(1) by (simp add: sample_request_def)
qed

subsection \<open>Clients made by NewClient\<close>

text \<open>
  C10 (as amended). A client made by \<open>NewClient\<close> has no insecure transport handle and
  does not require TLS. A submit call on it that builds its request makes exactly
  one HTTP attempt, through the client's only transport; a call that fails before it
  has a request makes none. The fallback branch is never taken: nothing is logged
  and no second attempt is made.
\<close>

theorem NewClient_single_attempt:
  assumes "(call, built) = (RequestLRPAuctions env lg ctx lrpStarts, lrpRequest env c ctx lrpStarts)
         \<or> (call, built) = (RequestTaskAuctions env lg ctx tasks, taskRequest env c ctx tasks)"
    and "c = fst (NewClient env auctioneerURL tracer w0)"
  shows "insecureHTTPClient c = None
       \<and> requireTLS c = False
       \<and> attempts (snd (snd (call (c, w)))) =
           attempts w @ (case built of Inl err \<Rightarrow> [] | Inr req \<Rightarrow> [(httpClient c, req)])
       \<and> logged (snd (snd (call (c, w)))) = logged w"
proof -
  have f: "insecureHTTPClient c = None" "requireTLS c = False"
    using assms(2) by (simp_all add: NewClient_def cfhttp_NewClient_def)
  have d: "snd (doRequest env lg' req (c, w)) = (c, w\<lparr>attempts := attempts w @ [(httpClient c, req)]\<rparr>)"
    for lg' req
    by (cases "http_Do env w (httpClient c) req")
       (simp_all add: doRequest_response doRequest_no_fallback f)
  from assms(1) have
    "call = RequestLRPAuctions env lg ctx lrpStarts \<and> built = lrpRequest env c ctx lrpStarts
     \<or> call = RequestTaskAuctions env lg ctx tasks \<and> built = taskRequest env c ctx tasks"
    by auto
  then have "attempts (snd (snd (call (c, w)))) =
           attempts w @ (case built of Inl err \<Rightarrow> [] | Inr req \<Rightarrow> [(httpClient c, req)])
       \<and> logged (snd (snd (call (c, w)))) = logged w"
    by (auto simp: RequestLRPAuctions_eq RequestTaskAuctions_eq d split: sum.splits)
  with f show ?thesis by simp
qed

theorem NewClient_single_attempt_witness:
  "lrpRequest (sample_env net_down) (fst (NewClient (sample_env net_down) ''http://auctioneer:9016'' () world0))
      Live (Some [])
     = Inr ((sample_request ''/v1/lrps'' ''[]'' Live)
              \<lparr>URL := \<lparr>Scheme = ''http'', Host = ''auctioneer:9016'', Path = ''/v1/lrps''\<rparr>\<rparr>)
   \<and> attempts (snd (snd (RequestLRPAuctions (sample_env net_down) [] Live (Some [])
        (fst (NewClient (sample_env net_down) ''http://auctioneer:9016'' () world0), world0))))
     = [(0, (sample_request ''/v1/lrps'' ''[]'' Live)
              \<lparr>URL := \<lparr>Scheme = ''http'', Host = ''auctioneer:9016'', Path = ''/v1/lrps''\<rparr>\<rparr>)]
   \<and> logged (snd (snd (RequestLRPAuctions (sample_env net_down) [] Live (Some [])
        (fst (NewClient (sample_env net_down) ''http://auctioneer:9016'' () world0), world0))))
     = []"
proof -
  let ?env = "sample_env net_down :: (string, string, unit, string) env"
  let ?c = "fst (NewClient ?env ''http://auctioneer:9016'' () world0)"
  let ?b = "Some [] :: string slice"
  let ?req = "(sample_request ''/v1/lrps'' ''[]'' Live)
              \<lparr>URL := \<lparr>Scheme = ''http'', Host = ''auctioneer:9016'', Path = ''/v1/lrps''\<rparr>\<rparr>"
  have c: "?c = \<lparr>httpClient = 0, insecureHTTPClient = None, url = ''http://auctioneer:9016'',
                 requireTLS = False, traceRequest = (\<lambda>req. req)\<rparr>"
    by (simp add: NewClient_def cfhttp_NewClient_def sample_env_def world0_def)
  have b: "lrpRequest ?env ?c Live ?b = Inr ?req"
    unfolding c by (simp add: sample_env_def sample_CreateRequest_def sample_request_def
        lrpRequest_def finishRequest_def json_Marshal_def json_array_def)
  have h: "httpClient ?c = 0"
    unfolding c by simp
  have op: "(RequestLRPAuctions ?env [] Live ?b, lrpRequest ?env ?c Live ?b) =
              (RequestLRPAuctions ?env [] Live ?b, lrpRequest ?env ?c Live ?b)
          \<or> (RequestLRPAuctions ?env [] Live ?b, lrpRequest ?env ?c Live ?b) =
              (RequestTaskAuctions ?env [] Live ?b, taskRequest ?env ?c Live ?b)"
    by (rule disjI1) (rule refl)
  have "attempts (snd (snd (RequestLRPAuctions ?env [] Live ?b (?c, world0)))) =
           attempts world0 @ (case lrpRequest ?env ?c Live ?b of Inl err \<Rightarrow> []
                              | Inr req \<Rightarrow> [(httpClient ?c, req)])"
    and "logged (snd (snd (RequestLRPAuctions ?env [] Live ?b (?c, world0)))) = logged world0"
    using NewClient_single_attempt [OF op refl, of world0] by simp_all
  then have "attempts (snd (snd (RequestLRPAuctions ?env [] Live ?b (?c, world0)))) = [(0, ?req)]"
    and "logged (snd (snd (RequestLRPAuctions ?env [] Live ?b (?c, world0)))) = []"
    unfolding b h by (simp_all add: world0_def)
  then show ?thesis using b by simp
qed

text \<open>
  C10 as stated fails: on a client made by \<open>NewClient\<close> with a base address the
  request generator rejects, a submit call returns the generator's error and makes
  no HTTP attempt.
\<close>

theorem NewClient_no_attempt_counterexample:
  "lrpRequest (sample_env (net_status 202))
      (fst (NewClient (sample_env (net_status 202)) ''://auctioneer:9016'' () world0)) Live (Some [Some ''{}''])
     = Inl (GoError ''parse: missing protocol scheme'')
   \<and> RequestLRPAuctions (sample_env (net_status 202)) [] Live (Some [Some ''{}''])
        (NewClient (sample_env (net_status 202)) ''://auctioneer:9016'' () world0)
     = (Some (GoError ''parse: missing protocol scheme''),
        NewClient (sample_env (net_status 202)) ''://auctioneer:9016'' () world0)
   \<and> attempts (snd (NewClient (sample_env (net_status 202)) ''://auctioneer:9016'' () world0)) = []"
proof -
  let ?env = "sample_env (net_status 202) :: (string, string, unit, string) env"
  let ?n = "NewClient ?env ''://auctioneer:9016'' () world0"
  have c: "?n = (\<lparr>httpClient = 0, insecureHTTPClient = None, url = ''://auctioneer:9016'',
                 requireTLS = False, traceRequest = (\<lambda>req. req)\<rparr>,
                 \<lparr>heap = [\<lparr>Transport = http_Transport None\<rparr>], attempts = [], logged = []\<rparr>)"
    by (simp add: NewClient_def cfhttp_NewClient_def sample_env_def world0_def)
  have b: "lrpRequest ?env (fst ?n) Live (Some [Some ''{}'']) = Inl (GoError ''parse: missing protocol scheme'')"
    unfolding c by (simp add: sample_env_def sample_CreateRequest_def
        lrpRequest_def json_Marshal_def json_array_def encode_ptr_def)
  have r: "RequestLRPAuctions ?env [] Live (Some [Some ''{}'']) (fst ?n, snd ?n) =
      (Some (GoError ''parse: missing protocol scheme''), (fst ?n, snd ?n))"
    by (simp only: RequestLRPAuctions_eq b sum.case)
  have a: "attempts (snd ?n) = []"
    unfolding c by simp
  show ?thesis using b r a by simp
qed

end
